theory Spec2Isabelle
  imports Main "HOL-Library.Word"
begin

section \<open>The online client of Open Hexagon (Core/HexagonClient.cpp)\<close>

text \<open>
  A shallow embedding of \<^verbatim>\<open>hg::HexagonClient\<close>. The object is a record; every member
  function takes the client and returns the updated client next to its C++ return value.
  Logging (\<^verbatim>\<open>SSVOH_CLOG\<close>, \<^verbatim>\<open>_errorOss\<close>, \<^verbatim>\<open>_verbose\<close>) has no effect on the
  behaviour and is left out: \<^verbatim>\<open>fail(...)\<close> logs and returns \<^verbatim>\<open>false\<close>, so it is
  \<open>False\<close> here.
\<close>

subsection \<open>Data\<close>

type_synonym bytes = "8 word list"
type_synonym uint64 = "64 word"

text \<open>\<^verbatim>\<open>enum class State\<close> of HexagonClient.hpp, in the order of the header.\<close>

datatype State = Disconnected | InitError | Connecting | ConnectionError | Connected | LoggedIn

text \<open>
  \<^verbatim>\<open>using Event = std::variant<...>\<close> of HexagonClient.hpp. The type of a processed score
  (\<^verbatim>\<open>Database::ProcessedScore\<close>) is declared outside the sources at hand and is the
  type parameter \<open>'sc\<close>.
\<close>

datatype 'sc Event =
    EConnectionSuccess
  | EConnectionFailure string
  | EKicked
  | ERegistrationSuccess
  | ERegistrationFailure string
  | ELoginSuccess
  | ELoginFailure string
  | ELogoutSuccess
  | ELogoutFailure
  | EDeleteAccountSuccess
  | EDeleteAccountFailure string
  | EReceivedTopScores string "'sc list"
  | EReceivedOwnScore string 'sc
  | EReceivedLevelScoresUnsupported string

text \<open>
  The messages the client builds (the \<^verbatim>\<open>CTSP...\<close> structs the \<^verbatim>\<open>send...\<close> members
  construct), with the fields the members fill in. The replay type (\<^verbatim>\<open>replay_file\<close>) is
  the type parameter \<open>'rp\<close>.
\<close>

datatype 'rp CTSP =
    CTSPHeartbeat
  | CTSPDisconnect
  | CTSPPublicKey bytes
  | CTSPRegister uint64 string string
  | CTSPLogin uint64 string string
  | CTSPLogout uint64
  | CTSPDeleteAccount uint64 string
  | CTSPRequestTopScores uint64 string
  | CTSPReplay uint64 'rp
  | CTSPRequestOwnScore uint64 string
  | CTSPRequestTopScoresAndOwnScore uint64 string
  | CTSPStartedGame uint64 string

text \<open>
  \<^verbatim>\<open>PVServerToClient\<close>: the variant \<^verbatim>\<open>receiveDataFromServer\<close> matches on, one constructor
  for each handler of the match, with the fields the handlers read.
\<close>

datatype 'sc PVServerToClient =
    PInvalid string
  | PEncryptedMsg
  | STCPKick
  | STCPPublicKey bytes
  | STCPRegistrationSuccess
  | STCPRegistrationFailure string
  | STCPLoginSuccess uint64 string
  | STCPLoginFailure string
  | STCPLogoutSuccess
  | STCPLogoutFailure
  | STCPDeleteAccountSuccess
  | STCPDeleteAccountFailure string
  | STCPTopScores string "'sc list"
  | STCPOwnScore string 'sc
  | STCPTopScoresAndOwnScore string "'sc list" "'sc option"

record SodiumPSKeys =
  keyPublic :: bytes
  keySecret :: bytes

record SodiumRTKeys =
  keyReceive :: bytes
  keyTransmit :: bytes

text \<open>\<^verbatim>\<open>sf::Socket::Status\<close>; \<open>SocketDisconnected\<close> is \<^verbatim>\<open>Status::Disconnected\<close>.\<close>

datatype Status = Done | NotReady | Partial | SocketDisconnected | Error

text \<open>
  \<^verbatim>\<open>sf::TcpSocket\<close> is a library object whose answers the client cannot predict. It is
  modelled by what the client observes: the blocking flag it sets, whether the handle is
  open (a successful \<^verbatim>\<open>connect\<close> opens it, \<^verbatim>\<open>disconnect\<close> closes it), the packets
  it hands to \<^verbatim>\<open>send\<close> (the log \<open>sent\<close>, one entry for each call), and the answers of the
  network, given in advance as functions of the number of the call: the status of the
  k-th \<^verbatim>\<open>connect\<close>, of the k-th \<^verbatim>\<open>send\<close>, and the status and packet contents of the
  k-th \<^verbatim>\<open>receive\<close>.
\<close>

record TcpSocket =
  blocking :: bool
  connect_status :: "nat \<Rightarrow> Status"
  connect_calls :: nat
  send_status :: "nat \<Rightarrow> Status"
  sent :: "bytes list"
  receive_result :: "nat \<Rightarrow> Status \<times> bytes"
  receive_calls :: nat
  handle_open :: bool

text \<open>
  The data members of the class. \<open>clock\<close> and \<open>clock_reads\<close> stand for
  \<^verbatim>\<open>Clock::now()\<close>: the k-th reading of the clock. A time point is its count of
  nanoseconds since the epoch of the clock, a signed 64-bit integer.
  \<^verbatim>\<open>sf::IpAddress::None\<close> is \<open>None\<close>.
\<close>

record 'sc client =
  ticketSteamID :: "uint64 option"
  serverIp :: "32 word option"
  serverPort :: "16 word"
  socket :: TcpSocket
  socketConnected :: bool
  packetBuffer :: bytes
  lastHeartbeatTime :: "64 word"
  clientPSKeys :: SodiumPSKeys
  serverPublicKey :: "bytes option"
  clientRTKeys :: "SodiumRTKeys option"
  state :: State
  loginToken :: "uint64 option"
  loginName :: "string option"
  events :: "'sc Event list"
  clock :: "nat \<Rightarrow> 64 word"
  clock_reads :: nat

text \<open>
  The functions of Online/Shared.cpp and Online/Sodium.cpp that the client calls are not
  among the sources; the members below take them as parameters, bundled in one record.
  \<^item> \<open>makeClientToServerPacket buf msg\<close> is the packet buffer after the plain message
    has been written into it;
  \<^item> \<open>makeClientToServerEncryptedPacket key buf msg\<close> is the success flag and the buffer
    after sealing the message with the transmit key;
  \<^item> \<open>calculateClientSessionSodiumRTKeys\<close> derives the session keys, or fails;
  \<^item> \<open>sodiumHash\<close> hashes the salted password, \<open>passwordSalt\<close> is the salt of the build;
  \<^item> \<open>decodeOuter\<close> and \<open>decrypt\<close> are the two primitives of the packet decoder (see
    \<open>decodeServerToClientPacket\<close> below).
\<close>

record ('sc, 'rp) env =
  makeClientToServerPacket :: "bytes \<Rightarrow> 'rp CTSP \<Rightarrow> bytes"
  makeClientToServerEncryptedPacket :: "bytes \<Rightarrow> bytes \<Rightarrow> 'rp CTSP \<Rightarrow> bool \<times> bytes"
  calculateClientSessionSodiumRTKeys :: "SodiumPSKeys \<Rightarrow> bytes \<Rightarrow> SodiumRTKeys option"
  sodiumHash :: "string \<Rightarrow> string"
  passwordSalt :: string
  decodeOuter :: "bytes \<Rightarrow> 'sc PVServerToClient"
  decrypt :: "bytes \<Rightarrow> bytes \<Rightarrow> bytes option"

subsection \<open>The socket and the clock\<close>

definition setBlocking :: "TcpSocket \<Rightarrow> bool \<Rightarrow> TcpSocket" where
  "setBlocking s b = s\<lparr>blocking := b\<rparr>"

definition socket_connect :: "TcpSocket \<Rightarrow> Status \<times> TcpSocket" where
  "socket_connect s =
     (connect_status s (connect_calls s),
      s\<lparr>connect_calls := Suc (connect_calls s),
        handle_open := (connect_status s (connect_calls s) = Done)\<rparr>)"

definition socket_send :: "TcpSocket \<Rightarrow> bytes \<Rightarrow> Status \<times> TcpSocket" where
  "socket_send s p = (send_status s (length (sent s)), s\<lparr>sent := sent s @ [p]\<rparr>)"

definition socket_receive :: "TcpSocket \<Rightarrow> (Status \<times> bytes) \<times> TcpSocket" where
  "socket_receive s =
     (receive_result s (receive_calls s), s\<lparr>receive_calls := Suc (receive_calls s)\<rparr>)"

definition socket_disconnect :: "TcpSocket \<Rightarrow> TcpSocket" where
  "socket_disconnect s = s\<lparr>handle_open := False\<rparr>"

definition Clock_now :: "'sc client \<Rightarrow> 64 word \<times> 'sc client" where
  "Clock_now c = (clock c (clock_reads c), c\<lparr>clock_reads := Suc (clock_reads c)\<rparr>)"

subsection \<open>Sending\<close>

text \<open>
  \<^verbatim>\<open>sendPacketRecursive(tries, p)\<close>: one call of \<^verbatim>\<open>_socket.send\<close> for each try; only
  \<^verbatim>\<open>Status::Partial\<close> leads to another try. No branch calls \<^verbatim>\<open>disconnect()\<close>.
\<close>

function sendPacketRecursive :: "int \<Rightarrow> bytes \<Rightarrow> 'sc client \<Rightarrow> bool \<times> 'sc client" where
  "sendPacketRecursive tries p c =
     (if tries > 5 then (False, c)
      else
        let (status, s') = socket_send (socket c) p;
            c' = c\<lparr>socket := s'\<rparr>
        in if status = NotReady then (False, c')
           else if status = Error then (False, c')
           else if status = SocketDisconnected then (False, c')
           else if status = Done then (True, c')
           else sendPacketRecursive (tries + 1) p c')"
  by pat_completeness auto
termination
  by (relation "measure (\<lambda>(tries, p, c). nat (6 - tries))") auto

declare sendPacketRecursive.simps [simp del]

definition sendPacket :: "bytes \<Rightarrow> 'sc client \<Rightarrow> bool \<times> 'sc client" where
  "sendPacket p c = sendPacketRecursive 0 p c"

text \<open>
  \<^verbatim>\<open>sendUnencrypted\<close> and \<^verbatim>\<open>sendEncrypted\<close> write the message into \<^verbatim>\<open>_packetBuffer\<close>
  and send the buffer.
\<close>

definition sendUnencrypted ::
  "('sc, 'rp) env \<Rightarrow> 'rp CTSP \<Rightarrow> 'sc client \<Rightarrow> bool \<times> 'sc client" where
  "sendUnencrypted E data c =
     (if \<not> socketConnected c then (False, c)
      else
        let c' = c\<lparr>packetBuffer := makeClientToServerPacket E (packetBuffer c) data\<rparr>
        in sendPacket (packetBuffer c') c')"

definition sendEncrypted ::
  "('sc, 'rp) env \<Rightarrow> 'rp CTSP \<Rightarrow> 'sc client \<Rightarrow> bool \<times> 'sc client" where
  "sendEncrypted E data c =
     (if \<not> socketConnected c then (False, c)
      else case clientRTKeys c of
        None \<Rightarrow> (False, c)
      | Some keys \<Rightarrow>
          let (ok, buf) =
                makeClientToServerEncryptedPacket E (keyTransmit keys) (packetBuffer c) data;
              c' = c\<lparr>packetBuffer := buf\<rparr>
          in if \<not> ok then (False, c')
             else sendPacket (packetBuffer c') c')"


definition sendHeartbeat :: "('sc, 'rp) env \<Rightarrow> 'sc client \<Rightarrow> bool \<times> 'sc client" where
  "sendHeartbeat E c =
     (let (ok, c') = sendUnencrypted E CTSPHeartbeat c
      in if \<not> ok then (False, c')
         else let (now, c'') = Clock_now c' in (True, c''\<lparr>lastHeartbeatTime := now\<rparr>))"

definition sendDisconnect :: "('sc, 'rp) env \<Rightarrow> 'sc client \<Rightarrow> bool \<times> 'sc client" where
  "sendDisconnect E c = sendUnencrypted E CTSPDisconnect c"

definition sendPublicKey :: "('sc, 'rp) env \<Rightarrow> 'sc client \<Rightarrow> bool \<times> 'sc client" where
  "sendPublicKey E c = sendUnencrypted E (CTSPPublicKey (keyPublic (clientPSKeys c))) c"

definition sendRegister ::
  "('sc, 'rp) env \<Rightarrow> uint64 \<Rightarrow> string \<Rightarrow> string \<Rightarrow> 'sc client \<Rightarrow> bool \<times> 'sc client" where
  "sendRegister E steamId name passwordHash c =
     sendEncrypted E (CTSPRegister steamId name passwordHash) c"

definition sendLogin ::
  "('sc, 'rp) env \<Rightarrow> uint64 \<Rightarrow> string \<Rightarrow> string \<Rightarrow> 'sc client \<Rightarrow> bool \<times> 'sc client" where
  "sendLogin E steamId name passwordHash c =
     sendEncrypted E (CTSPLogin steamId name passwordHash) c"

definition sendLogout :: "('sc, 'rp) env \<Rightarrow> uint64 \<Rightarrow> 'sc client \<Rightarrow> bool \<times> 'sc client" where
  "sendLogout E steamId c = sendEncrypted E (CTSPLogout steamId) c"

definition sendDeleteAccount ::
  "('sc, 'rp) env \<Rightarrow> uint64 \<Rightarrow> string \<Rightarrow> 'sc client \<Rightarrow> bool \<times> 'sc client" where
  "sendDeleteAccount E steamId passwordHash c =
     sendEncrypted E (CTSPDeleteAccount steamId passwordHash) c"

definition sendRequestTopScores ::
  "('sc, 'rp) env \<Rightarrow> uint64 \<Rightarrow> string \<Rightarrow> 'sc client \<Rightarrow> bool \<times> 'sc client" where
  "sendRequestTopScores E token levelValidator c =
     sendEncrypted E (CTSPRequestTopScores token levelValidator) c"

definition sendReplay ::
  "('sc, 'rp) env \<Rightarrow> uint64 \<Rightarrow> 'rp \<Rightarrow> 'sc client \<Rightarrow> bool \<times> 'sc client" where
  "sendReplay E token replayFile c = sendEncrypted E (CTSPReplay token replayFile) c"

definition sendRequestOwnScore ::
  "('sc, 'rp) env \<Rightarrow> uint64 \<Rightarrow> string \<Rightarrow> 'sc client \<Rightarrow> bool \<times> 'sc client" where
  "sendRequestOwnScore E token levelValidator c =
     sendEncrypted E (CTSPRequestOwnScore token levelValidator) c"

definition sendRequestTopScoresAndOwnScore ::
  "('sc, 'rp) env \<Rightarrow> uint64 \<Rightarrow> string \<Rightarrow> 'sc client \<Rightarrow> bool \<times> 'sc client" where
  "sendRequestTopScoresAndOwnScore E token levelValidator c =
     sendEncrypted E (CTSPRequestTopScoresAndOwnScore token levelValidator) c"

definition sendStartedGame ::
  "('sc, 'rp) env \<Rightarrow> uint64 \<Rightarrow> string \<Rightarrow> 'sc client \<Rightarrow> bool \<times> 'sc client" where
  "sendStartedGame E token levelValidator c =
     sendEncrypted E (CTSPStartedGame token levelValidator) c"

subsection \<open>Disconnecting and receiving\<close>

text \<open>
  \<^verbatim>\<open>disconnect()\<close>: a best-effort logout and disconnect notice (their results are
  discarded), then the socket is closed and the state reset. The members
  \<^verbatim>\<open>_loginToken\<close> and \<^verbatim>\<open>_loginName\<close> are not assigned.
\<close>

definition disconnect :: "('sc, 'rp) env \<Rightarrow> 'sc client \<Rightarrow> 'sc client" where
  "disconnect E c =
     (let c1 = c\<lparr>socket := setBlocking (socket c) True\<rparr>;
          c2 = (if state c1 = LoggedIn
                then (case ticketSteamID c1 of
                        None \<Rightarrow> c1
                      | Some steamId \<Rightarrow> snd (sendLogout E steamId c1))
                else c1);
          c3 = (if state c2 = Connected \<or> state c2 = LoggedIn
                then snd (sendDisconnect E c2)
                else c2);
          c4 = c3\<lparr>socket := socket_disconnect (socket c3), socketConnected := False\<rparr>
      in c4\<lparr>state := Disconnected\<rparr>)"

text \<open>
  \<^verbatim>\<open>recvPacketRecursive(tries, p)\<close>. Its only caller passes \<^verbatim>\<open>_packetBuffer\<close> for
  \<^verbatim>\<open>p\<close>, so the packet received is the new contents of the buffer.
\<close>

function recvPacketRecursive ::
  "('sc, 'rp) env \<Rightarrow> int \<Rightarrow> 'sc client \<Rightarrow> bool \<times> 'sc client" where
  "recvPacketRecursive E tries c =
     (if tries > 5 then (False, c)
      else
        let ((status, data), s') = socket_receive (socket c);
            c' = c\<lparr>socket := s', packetBuffer := data\<rparr>
        in if status = NotReady then (False, c')
           else if status = Error then (False, disconnect E c')
           else if status = SocketDisconnected then (False, disconnect E c')
           else if status = Done then (True, c')
           else recvPacketRecursive E (tries + 1) c')"
  by pat_completeness auto
termination
  by (relation "measure (\<lambda>(E, tries, c). nat (6 - tries))") auto

declare recvPacketRecursive.simps [simp del]

definition recvPacket :: "('sc, 'rp) env \<Rightarrow> 'sc client \<Rightarrow> bool \<times> 'sc client" where
  "recvPacket E c = recvPacketRecursive E 0 c"

text \<open>
  45 seconds, in the ticks of the clock. The elapsed time is the difference of two 64-bit
  counts, read as a signed number: the subtraction wraps around as the machine's does.
\<close>

definition heatbeatInterval :: int where
  "heatbeatInterval = 45 * 1000000000"

definition sendHeartbeatIfNecessary ::
  "('sc, 'rp) env \<Rightarrow> 'sc client \<Rightarrow> bool \<times> 'sc client" where
  "sendHeartbeatIfNecessary E c =
     (if \<not> socketConnected c then (True, c)
      else
        let (now, c1) = Clock_now c
        in if sint (now - lastHeartbeatTime c1) > heatbeatInterval
           then (let (ok, c2) = sendHeartbeat E c1
                 in if \<not> ok then (False, disconnect E c2) else (True, c2))
           else (True, c1))"

definition addEvent :: "'sc Event \<Rightarrow> 'sc client \<Rightarrow> 'sc client" where
  "addEvent e c = c\<lparr>events := events c @ [e]\<rparr>"

text \<open>
  Modelled from the spec: \<^verbatim>\<open>decodeServerToClientPacket\<close> (Online/Shared.cpp) is not
  among the sources. Section 4.3 of the specification gives it two phases: the outer
  decode tells a plaintext message from an encrypted envelope and maps an unrecognised
  frame to the invalid variant with a diagnostic; an envelope needs the current receive
  key and is reported as invalid when the key is absent or when decryption fails;
  otherwise the decrypted frame is decoded. The two primitives come from the
  environment: \<open>decodeOuter\<close> (it answers \<open>PEncryptedMsg\<close> for an envelope) and
  \<open>decrypt\<close>.
\<close>

definition decodeServerToClientPacket ::
  "('sc, 'rp) env \<Rightarrow> bytes option \<Rightarrow> bytes \<Rightarrow> 'sc PVServerToClient" where
  "decodeServerToClientPacket E receiveKey p =
     (case decodeOuter E p of
        PEncryptedMsg \<Rightarrow>
          (case receiveKey of
             None \<Rightarrow> PInvalid ''encrypted message without receive key''
           | Some k \<Rightarrow>
               (case decrypt E k p of
                  None \<Rightarrow> PInvalid ''failure decrypting message''
                | Some inner \<Rightarrow> decodeOuter E inner))
      | pv \<Rightarrow> pv)"

text \<open>The handlers of \<^verbatim>\<open>Utils::match(pv, ...)\<close> in \<^verbatim>\<open>receiveDataFromServer\<close>, in order.\<close>

fun handlePacket ::
  "('sc, 'rp) env \<Rightarrow> 'sc PVServerToClient \<Rightarrow> 'sc client \<Rightarrow> bool \<times> 'sc client" where
  "handlePacket E (PInvalid err) c = (False, c)"
| "handlePacket E PEncryptedMsg c = (False, c)"
| "handlePacket E STCPKick c = (True, disconnect E (addEvent EKicked c))"
| "handlePacket E (STCPPublicKey key) c =
     (let c1 = c\<lparr>serverPublicKey := Some key\<rparr>;
          c2 = c1\<lparr>clientRTKeys := calculateClientSessionSodiumRTKeys E (clientPSKeys c1) key\<rparr>
      in if clientRTKeys c2 = None then (False, disconnect E c2) else (True, c2))"
| "handlePacket E STCPRegistrationSuccess c = (True, addEvent ERegistrationSuccess c)"
| "handlePacket E (STCPRegistrationFailure err) c =
     (True, addEvent (ERegistrationFailure err) c)"
| "handlePacket E (STCPLoginSuccess token name) c =
     (True, addEvent ELoginSuccess
        (c\<lparr>loginToken := Some token, loginName := Some name, state := LoggedIn\<rparr>))"
| "handlePacket E (STCPLoginFailure err) c = (True, addEvent (ELoginFailure err) c)"
| "handlePacket E STCPLogoutSuccess c = (True, addEvent ELogoutSuccess c)"
| "handlePacket E STCPLogoutFailure c = (True, addEvent ELogoutFailure c)"
| "handlePacket E STCPDeleteAccountSuccess c = (True, addEvent EDeleteAccountSuccess c)"
| "handlePacket E (STCPDeleteAccountFailure err) c =
     (True, addEvent (EDeleteAccountFailure err) c)"
| "handlePacket E (STCPTopScores levelValidator scores) c =
     (True, addEvent (EReceivedTopScores levelValidator scores) c)"
| "handlePacket E (STCPOwnScore levelValidator score) c =
     (True, addEvent (EReceivedOwnScore levelValidator score) c)"
| "handlePacket E (STCPTopScoresAndOwnScore levelValidator scores ownScore) c =
     (let c1 = addEvent (EReceivedTopScores levelValidator scores) c
      in case ownScore of
           None \<Rightarrow> (True, c1)
         | Some score \<Rightarrow> (True, addEvent (EReceivedOwnScore levelValidator score) c1))"

definition receiveDataFromServer ::
  "('sc, 'rp) env \<Rightarrow> 'sc client \<Rightarrow> bool \<times> 'sc client" where
  "receiveDataFromServer E c =
     (if \<not> socketConnected c then (False, c)
      else
        let (ok, c1) = recvPacket E c
        in if \<not> ok then (False, c1)
           else handlePacket E
                  (decodeServerToClientPacket E
                     (map_option keyReceive (clientRTKeys c1)) (packetBuffer c1))
                  c1)"

text \<open>
  \<^verbatim>\<open>update()\<close>. Nothing in the two calls throws in this model, so the two \<^verbatim>\<open>catch\<close>
  clauses, which only log, have no branch here.
\<close>

definition update :: "('sc, 'rp) env \<Rightarrow> 'sc client \<Rightarrow> 'sc client" where
  "update E c =
     (if \<not> socketConnected c then c
      else
        let (r1, c1) = sendHeartbeatIfNecessary E c;
            (r2, c2) = receiveDataFromServer E c1
        in c2)"

subsection \<open>Connecting and construction\<close>

definition initializeTcpSocket :: "'sc client \<Rightarrow> bool \<times> 'sc client" where
  "initializeTcpSocket c =
     (if socketConnected c then (False, c)
      else
        let s1 = setBlocking (socket c) True;
            (status, s2) = socket_connect s1
        in if status \<noteq> Done then (False, c\<lparr>socket := s2, socketConnected := False\<rparr>)
           else (True, c\<lparr>socket := setBlocking s2 False, socketConnected := True\<rparr>))"

text \<open>The lambda \<^verbatim>\<open>failEvent\<close> of \<^verbatim>\<open>connect()\<close>.\<close>

definition failEvent :: "string \<Rightarrow> 'sc client \<Rightarrow> bool \<times> 'sc client" where
  "failEvent reason c =
     (False,
      (addEvent (EConnectionFailure (''Failure connecting, error '' @ reason)) c)
        \<lparr>state := ConnectionError\<rparr>)"

definition connect :: "('sc, 'rp) env \<Rightarrow> 'sc client \<Rightarrow> bool \<times> 'sc client" where
  "connect E c =
     (let c0 = c\<lparr>state := Connecting\<rparr>
      in if socketConnected c0 then (False, c0)
         else
           let (ok1, c1) = initializeTcpSocket c0
           in if \<not> ok1 then failEvent ''initializing TCP socket'' c1
              else
                let (ok2, c2) = sendHeartbeat E c1
                in if \<not> ok2 then failEvent ''sending first heartbeat'' c2
                   else
                     let (ok3, c3) = sendPublicKey E c2
                     in if \<not> ok3 then failEvent ''sending public key'' c3
                        else (True, (addEvent EConnectionSuccess c3)\<lparr>state := Connected\<rparr>))"

text \<open>
  The Steam manager, as \<^verbatim>\<open>initializeTicketSteamID\<close> observes it: whether the response
  has arrived after k calls of \<^verbatim>\<open>run_callbacks\<close>, whether a ticket came with it, and the
  Steam ID of the ticket.
\<close>

record steam_manager =
  got_encrypted_app_ticket_response :: "nat \<Rightarrow> bool"
  got_encrypted_app_ticket :: bool
  get_ticket_steam_id :: "uint64 option"

text \<open>The waiting loop of \<^verbatim>\<open>initializeTicketSteamID\<close>; \<open>False\<close> is the early return.\<close>

function waitForTicketResponse :: "steam_manager \<Rightarrow> int \<Rightarrow> bool" where
  "waitForTicketResponse sm tries =
     (if \<not> got_encrypted_app_ticket_response sm (nat tries)
      then (let tries' = tries + 1
            in if tries' > 15 then False else waitForTicketResponse sm tries')
      else True)"
  by pat_completeness auto
termination
  by (relation "measure (\<lambda>(sm, tries). nat (16 - tries))") auto

declare waitForTicketResponse.simps [simp del]

definition initializeTicketSteamID :: "steam_manager \<Rightarrow> 'sc client \<Rightarrow> bool \<times> 'sc client" where
  "initializeTicketSteamID sm c =
     (if \<not> waitForTicketResponse sm 0 then (False, c)
      else if \<not> got_encrypted_app_ticket sm then (False, c)
      else case get_ticket_steam_id sm of
             None \<Rightarrow> (False, c)
           | Some steamId \<Rightarrow> (True, c\<lparr>ticketSteamID := Some steamId\<rparr>))"

text \<open>
  The constructor: the member initialisers first, then its body. The configured address
  and port (\<^verbatim>\<open>Config::getServerIp()\<close>, \<^verbatim>\<open>Config::getServerPort()\<close>), the generated key
  pair, the socket and the clock are parameters. The two optionals without an initialiser
  (\<^verbatim>\<open>_serverPublicKey\<close>, \<^verbatim>\<open>_clientRTKeys\<close>) start empty.
\<close>

definition initial_members ::
  "32 word option \<Rightarrow> 16 word \<Rightarrow> SodiumPSKeys \<Rightarrow> TcpSocket \<Rightarrow> (nat \<Rightarrow> 64 word) \<Rightarrow> 'sc client" where
  "initial_members ip port keys sock clk =
     \<lparr>ticketSteamID = None, serverIp = ip, serverPort = port, socket = sock,
      socketConnected = False, packetBuffer = [], lastHeartbeatTime = 0,
      clientPSKeys = keys, serverPublicKey = None, clientRTKeys = None,
      state = Disconnected, loginToken = None, loginName = None, events = [],
      clock = clk, clock_reads = 0\<rparr>"

definition HexagonClient ::
  "('sc, 'rp) env \<Rightarrow> steam_manager \<Rightarrow> 32 word option \<Rightarrow> 16 word \<Rightarrow> SodiumPSKeys \<Rightarrow>
     TcpSocket \<Rightarrow> (nat \<Rightarrow> 64 word) \<Rightarrow> 'sc client" where
  "HexagonClient E sm ip port keys sock clk =
     (let c = initial_members ip port keys sock clk
      in if serverIp c = None then c\<lparr>state := InitError\<rparr>
         else
           let (ok, c1) = initializeTicketSteamID sm c
           in if \<not> ok then c1\<lparr>state := InitError\<rparr>
              else snd (connect E c1))"

subsection \<open>The requests\<close>

text \<open>
  A request that reads an empty optional does not return: after
  \<^verbatim>\<open>SSVOH_ASSERT(x.has_value())\<close> the call \<^verbatim>\<open>x.value()\<close> throws
  \<^verbatim>\<open>std::bad_optional_access\<close> (or the assertion stops the program first). The result
  of a request is therefore an error or the boolean it returns, next to the client as
  the call leaves it.
\<close>

datatype error = BadOptionalAccess

definition connectedAndInState :: "'sc client \<Rightarrow> State \<Rightarrow> bool" where
  "connectedAndInState c s = (socketConnected c \<and> state c = s)"

definition hashPwd :: "('sc, 'rp) env \<Rightarrow> string \<Rightarrow> string" where
  "hashPwd E password = sodiumHash E (passwordSalt E @ password)"

definition returning :: "bool \<times> 'sc client \<Rightarrow> (error + bool) \<times> 'sc client" where
  "returning r = (Inr (fst r), snd r)"

definition tryRegister ::
  "('sc, 'rp) env \<Rightarrow> string \<Rightarrow> string \<Rightarrow> 'sc client \<Rightarrow> (error + bool) \<times> 'sc client" where
  "tryRegister E name password c =
     (if \<not> connectedAndInState c Connected then (Inr False, c)
      else if name = [] \<or> length name > 32 \<or> password = []
      then (Inr False,
            addEvent (ERegistrationFailure ''Name or password fields too long or empty'') c)
      else case ticketSteamID c of
             None \<Rightarrow> (Inl BadOptionalAccess, c)
           | Some steamId \<Rightarrow> returning (sendRegister E steamId name (hashPwd E password) c))"

definition tryLogin ::
  "('sc, 'rp) env \<Rightarrow> string \<Rightarrow> string \<Rightarrow> 'sc client \<Rightarrow> (error + bool) \<times> 'sc client" where
  "tryLogin E name password c =
     (if \<not> connectedAndInState c Connected then (Inr False, c)
      else if name = [] \<or> length name > 32 \<or> password = []
      then (Inr False,
            addEvent (ELoginFailure ''Name or password fields too long or empty'') c)
      else case ticketSteamID c of
             None \<Rightarrow> (Inl BadOptionalAccess, c)
           | Some steamId \<Rightarrow> returning (sendLogin E steamId name (hashPwd E password) c))"

definition tryLogoutFromServer ::
  "('sc, 'rp) env \<Rightarrow> 'sc client \<Rightarrow> (error + bool) \<times> 'sc client" where
  "tryLogoutFromServer E c =
     (if \<not> connectedAndInState c LoggedIn then (Inr False, c)
      else
        let c1 = c\<lparr>state := Connected, loginToken := None, loginName := None\<rparr>
        in case ticketSteamID c1 of
             None \<Rightarrow> (Inl BadOptionalAccess, c1)
           | Some steamId \<Rightarrow> returning (sendLogout E steamId c1))"

definition tryDeleteAccount ::
  "('sc, 'rp) env \<Rightarrow> string \<Rightarrow> 'sc client \<Rightarrow> (error + bool) \<times> 'sc client" where
  "tryDeleteAccount E password c =
     (if \<not> connectedAndInState c Connected then (Inr False, c)
      else case ticketSteamID c of
             None \<Rightarrow> (Inl BadOptionalAccess, c)
           | Some steamId \<Rightarrow> returning (sendDeleteAccount E steamId (hashPwd E password) c))"

definition tryRequestTopScores ::
  "('sc, 'rp) env \<Rightarrow> string \<Rightarrow> 'sc client \<Rightarrow> (error + bool) \<times> 'sc client" where
  "tryRequestTopScores E levelValidator c =
     (if \<not> connectedAndInState c LoggedIn then (Inr False, c)
      else case loginToken c of
             None \<Rightarrow> (Inl BadOptionalAccess, c)
           | Some token \<Rightarrow> returning (sendRequestTopScores E token levelValidator c))"

definition trySendReplay ::
  "('sc, 'rp) env \<Rightarrow> 'rp \<Rightarrow> 'sc client \<Rightarrow> (error + bool) \<times> 'sc client" where
  "trySendReplay E replayFile c =
     (if \<not> connectedAndInState c LoggedIn then (Inr False, c)
      else case loginToken c of
             None \<Rightarrow> (Inl BadOptionalAccess, c)
           | Some token \<Rightarrow> returning (sendReplay E token replayFile c))"

definition tryRequestOwnScore ::
  "('sc, 'rp) env \<Rightarrow> string \<Rightarrow> 'sc client \<Rightarrow> (error + bool) \<times> 'sc client" where
  "tryRequestOwnScore E levelValidator c =
     (if \<not> connectedAndInState c LoggedIn then (Inr False, c)
      else case loginToken c of
             None \<Rightarrow> (Inl BadOptionalAccess, c)
           | Some token \<Rightarrow> returning (sendRequestOwnScore E token levelValidator c))"

definition tryRequestTopScoresAndOwnScore ::
  "('sc, 'rp) env \<Rightarrow> string \<Rightarrow> 'sc client \<Rightarrow> (error + bool) \<times> 'sc client" where
  "tryRequestTopScoresAndOwnScore E levelValidator c =
     (if \<not> connectedAndInState c LoggedIn then (Inr False, c)
      else case loginToken c of
             None \<Rightarrow> (Inl BadOptionalAccess, c)
           | Some token \<Rightarrow>
               returning (sendRequestTopScoresAndOwnScore E token levelValidator c))"

definition trySendStartedGame ::
  "('sc, 'rp) env \<Rightarrow> string \<Rightarrow> 'sc client \<Rightarrow> (error + bool) \<times> 'sc client" where
  "trySendStartedGame E levelValidator c =
     (if \<not> connectedAndInState c LoggedIn then (Inr False, c)
      else case loginToken c of
             None \<Rightarrow> (Inl BadOptionalAccess, c)
           | Some token \<Rightarrow> returning (sendStartedGame E token levelValidator c))"

definition getState :: "'sc client \<Rightarrow> State" where
  "getState c = state c"

definition getLoginName :: "'sc client \<Rightarrow> string option" where
  "getLoginName c = loginName c"

definition pollEvent :: "'sc client \<Rightarrow> 'sc Event option \<times> 'sc client" where
  "pollEvent c =
     (case events c of
        [] \<Rightarrow> (None, c)
      | e # es \<Rightarrow> (Some e, c\<lparr>events := es\<rparr>))"

subsection \<open>Sequences of calls\<close>

text \<open>
  The public members of the class (HexagonClient.hpp), as the calls an application can
  make on a client, and the client after a sequence of them.
\<close>

datatype 'rp call =
    Call_connect
  | Call_disconnect
  | Call_update
  | Call_tryRegister string string
  | Call_tryLogin string string
  | Call_tryLogoutFromServer
  | Call_tryDeleteAccount string
  | Call_tryRequestTopScores string
  | Call_trySendReplay 'rp
  | Call_tryRequestOwnScore string
  | Call_tryRequestTopScoresAndOwnScore string
  | Call_trySendStartedGame string
  | Call_getState
  | Call_getLoginName
  | Call_pollEvent

fun after_call :: "('sc, 'rp) env \<Rightarrow> 'rp call \<Rightarrow> 'sc client \<Rightarrow> 'sc client" where
  "after_call E Call_connect c = snd (connect E c)"
| "after_call E Call_disconnect c = disconnect E c"
| "after_call E Call_update c = update E c"
| "after_call E (Call_tryRegister name password) c = snd (tryRegister E name password c)"
| "after_call E (Call_tryLogin name password) c = snd (tryLogin E name password c)"
| "after_call E Call_tryLogoutFromServer c = snd (tryLogoutFromServer E c)"
| "after_call E (Call_tryDeleteAccount password) c = snd (tryDeleteAccount E password c)"
| "after_call E (Call_tryRequestTopScores lv) c = snd (tryRequestTopScores E lv c)"
| "after_call E (Call_trySendReplay rf) c = snd (trySendReplay E rf c)"
| "after_call E (Call_tryRequestOwnScore lv) c = snd (tryRequestOwnScore E lv c)"
| "after_call E (Call_tryRequestTopScoresAndOwnScore lv) c =
     snd (tryRequestTopScoresAndOwnScore E lv c)"
| "after_call E (Call_trySendStartedGame lv) c = snd (trySendStartedGame E lv c)"
| "after_call E Call_getState c = c"
| "after_call E Call_getLoginName c = c"
| "after_call E Call_pollEvent c = snd (pollEvent c)"

fun after_calls :: "('sc, 'rp) env \<Rightarrow> 'rp call list \<Rightarrow> 'sc client \<Rightarrow> 'sc client" where
  "after_calls E [] c = c"
| "after_calls E (x # xs) c = after_calls E xs (after_call E x c)"

text \<open>
  A client that has never had a connection on the socket \<open>sock\<close> it was built with:
  the socket is not connected, the state is \<open>InitError\<close> or \<open>Disconnected\<close>, nothing was
  handed to the socket, no connection was attempted and no event was queued.
\<close>

definition never_connected :: "TcpSocket \<Rightarrow> 'sc client \<Rightarrow> bool" where
  "never_connected sock c =
     (\<not> socketConnected c \<and> (state c = InitError \<or> state c = Disconnected)
      \<and> sent (socket c) = sent sock \<and> connect_calls (socket c) = connect_calls sock
      \<and> events c = [])"

subsection \<open>Sample environment, sockets and clients\<close>

text \<open>
  Concrete values on which the theorems below are evaluated: an environment whose packet
  builders always succeed and whose decoder knows an envelope and one login success, a
  socket that answers \<open>Partial\<close> to the first \<open>n\<close> sends and receives and one chosen
  status to every other call, a client with a connected socket in a chosen state (with
  session keys and a login session when that state is \<open>LoggedIn\<close>), and a Steam manager
  that has its response at once or never.
\<close>

definition sample_env :: "(unit, unit) env" where
  "sample_env =
     \<lparr>makeClientToServerPacket = (\<lambda>buf msg. [1]),
      makeClientToServerEncryptedPacket = (\<lambda>key buf msg. (True, 2 # key)),
      calculateClientSessionSodiumRTKeys =
        (\<lambda>ps k. Some \<lparr>keyReceive = k, keyTransmit = keyPublic ps\<rparr>),
      sodiumHash = rev,
      passwordSalt = ''salt'',
      decodeOuter =
        (\<lambda>p. if p = [2] then PEncryptedMsg
             else if p = [5] then STCPLoginSuccess 7 ''player''
             else PInvalid ''unrecognised''),
      decrypt = (\<lambda>k p. None)\<rparr>"

definition sample_socket :: "nat \<Rightarrow> Status \<Rightarrow> TcpSocket" where
  "sample_socket n st =
     \<lparr>blocking = False, connect_status = (\<lambda>k. st), connect_calls = 0,
      send_status = (\<lambda>k. if k < n then Partial else st), sent = [],
      receive_result = (\<lambda>k. (if k < n then Partial else st, [2])),
      receive_calls = 0, handle_open = True\<rparr>"

definition sample_client :: "State \<Rightarrow> TcpSocket \<Rightarrow> unit client" where
  "sample_client st sock =
     \<lparr>ticketSteamID = Some 42, serverIp = Some 1, serverPort = 50505, socket = sock,
      socketConnected = True, packetBuffer = [], lastHeartbeatTime = 0,
      clientPSKeys = \<lparr>keyPublic = [3], keySecret = [4]\<rparr>, serverPublicKey = None,
      clientRTKeys =
        (if st = LoggedIn then Some \<lparr>keyReceive = [5], keyTransmit = [6]\<rparr> else None),
      state = st,
      loginToken = (if st = LoggedIn then Some 7 else None),
      loginName = (if st = LoggedIn then Some ''player'' else None),
      events = [], clock = (\<lambda>k. 0), clock_reads = 0\<rparr>"

definition sample_steam :: "bool \<Rightarrow> steam_manager" where
  "sample_steam answers =
     \<lparr>got_encrypted_app_ticket_response = (\<lambda>k. answers),
      got_encrypted_app_ticket = True, get_ticket_steam_id = Some 42\<rparr>"

section \<open>Properties\<close>

subsection \<open>What sending leaves alone\<close>

text \<open>
  Sending touches the socket and the packet buffer only: the state, the event queue, the
  login session and the keys of the client are the same after any send.
\<close>

lemma sendPacketRecursive_frame:
  "\<exists>s. snd (sendPacketRecursive tries p c) = c\<lparr>socket := s\<rparr>"
proof (induction tries p c rule: sendPacketRecursive.induct)
  case (1 tries p c)
  show ?case
  proof (cases "tries > 5")
    case True
    have "c = c\<lparr>socket := socket c\<rparr>" by simp
    with True show ?thesis by (metis sendPacketRecursive.simps snd_conv)
  next
    case False
    obtain status s' where ss: "socket_send (socket c) p = (status, s')"
      by (cases "socket_send (socket c) p")
    show ?thesis
    proof (cases "status = Partial")
      case True
      with 1[OF False ss[symmetric] refl] ss
      obtain s where "snd (sendPacketRecursive (tries + 1) p (c\<lparr>socket := s'\<rparr>)) = c\<lparr>socket := s'\<rparr>\<lparr>socket := s\<rparr>"
        by auto
      with False ss True show ?thesis
        by (subst sendPacketRecursive.simps) auto
    next
      case np: False
      with False ss show ?thesis
        by (subst sendPacketRecursive.simps) (cases status; auto)
    qed
  qed
qed

lemma sendPacket_frame: "\<exists>s. snd (sendPacket p c) = c\<lparr>socket := s\<rparr>"
  by (simp add: sendPacket_def sendPacketRecursive_frame)

lemma sendUnencrypted_frame:
  "\<exists>s b. snd (sendUnencrypted E d c) = c\<lparr>socket := s, packetBuffer := b\<rparr>"
proof (cases "socketConnected c")
  case False
  have "c = c\<lparr>socket := socket c, packetBuffer := packetBuffer c\<rparr>" by simp
  moreover from False have "snd (sendUnencrypted E d c) = c"
    by (simp add: sendUnencrypted_def)
  ultimately show ?thesis by metis
next
  case True
  define c' where "c' = c\<lparr>packetBuffer := makeClientToServerPacket E (packetBuffer c) d\<rparr>"
  obtain s where "snd (sendPacket (packetBuffer c') c') = c'\<lparr>socket := s\<rparr>"
    using sendPacket_frame by blast
  with True have "snd (sendUnencrypted E d c) = c\<lparr>socket := s, packetBuffer := packetBuffer c'\<rparr>"
    by (simp add: sendUnencrypted_def c'_def)
  then show ?thesis by blast
qed

lemma sendEncrypted_frame:
  "\<exists>s b. snd (sendEncrypted E d c) = c\<lparr>socket := s, packetBuffer := b\<rparr>"
proof -
  have same: "c = c\<lparr>socket := socket c, packetBuffer := packetBuffer c\<rparr>" by simp
  show ?thesis
  proof (cases "socketConnected c \<and> clientRTKeys c \<noteq> None")
    case False
    then have "snd (sendEncrypted E d c) = c"
      by (auto simp add: sendEncrypted_def)
    with same show ?thesis by metis
  next
    case True
    then obtain keys where k: "clientRTKeys c = Some keys" by auto
    obtain ok buf where m:
      "makeClientToServerEncryptedPacket E (keyTransmit keys) (packetBuffer c) d = (ok, buf)"
      by (cases "makeClientToServerEncryptedPacket E (keyTransmit keys) (packetBuffer c) d")
    show ?thesis
    proof (cases ok)
      case False
      with True k m have "snd (sendEncrypted E d c) = c\<lparr>socket := socket c, packetBuffer := buf\<rparr>"
        by (simp add: sendEncrypted_def)
      then show ?thesis by blast
    next
      case ok: True
      obtain s where "snd (sendPacket buf (c\<lparr>packetBuffer := buf\<rparr>)) = c\<lparr>packetBuffer := buf\<rparr>\<lparr>socket := s\<rparr>"
        using sendPacket_frame by blast
      with True k m ok have "snd (sendEncrypted E d c) = c\<lparr>socket := s, packetBuffer := buf\<rparr>"
        by (simp add: sendEncrypted_def)
      then show ?thesis by blast
    qed
  qed
qed

lemma sendUnencrypted_keeps [simp]:
  "state (snd (sendUnencrypted E d c)) = state c"
  "events (snd (sendUnencrypted E d c)) = events c"
  "loginToken (snd (sendUnencrypted E d c)) = loginToken c"
  "loginName (snd (sendUnencrypted E d c)) = loginName c"
  "socketConnected (snd (sendUnencrypted E d c)) = socketConnected c"
  "ticketSteamID (snd (sendUnencrypted E d c)) = ticketSteamID c"
  "clientRTKeys (snd (sendUnencrypted E d c)) = clientRTKeys c"
  "clock_reads (snd (sendUnencrypted E d c)) = clock_reads c"
  "clock (snd (sendUnencrypted E d c)) = clock c"
  using sendUnencrypted_frame[of E d c] by auto

lemma sendEncrypted_keeps [simp]:
  "state (snd (sendEncrypted E d c)) = state c"
  "events (snd (sendEncrypted E d c)) = events c"
  "loginToken (snd (sendEncrypted E d c)) = loginToken c"
  "loginName (snd (sendEncrypted E d c)) = loginName c"
  "socketConnected (snd (sendEncrypted E d c)) = socketConnected c"
  "ticketSteamID (snd (sendEncrypted E d c)) = ticketSteamID c"
  "clientRTKeys (snd (sendEncrypted E d c)) = clientRTKeys c"
  using sendEncrypted_frame[of E d c] by auto

subsection \<open>Disconnecting\<close>

lemma disconnect_result [simp]:
  "state (disconnect E c) = Disconnected"
  "\<not> socketConnected (disconnect E c)"
  by (simp_all add: disconnect_def Let_def)

lemma disconnect_keeps [simp]:
  "events (disconnect E c) = events c"
  "loginToken (disconnect E c) = loginToken c"
  "loginName (disconnect E c) = loginName c"
  by (simp_all add: disconnect_def Let_def sendLogout_def sendDisconnect_def
      split: option.splits)

subsection \<open>One step of the retry loops\<close>

lemma sendPacketRecursive_answer:
  assumes "tries \<le> 5" and "send_status (socket c) (length (sent (socket c))) \<noteq> Partial"
  shows "sendPacketRecursive tries p c =
           (send_status (socket c) (length (sent (socket c))) = Done,
            c\<lparr>socket := (socket c)\<lparr>sent := sent (socket c) @ [p]\<rparr>\<rparr>)"
  using assms
  by (subst sendPacketRecursive.simps)
     (cases "send_status (socket c) (length (sent (socket c)))"; simp add: socket_send_def)

lemma sendPacketRecursive_Partial:
  assumes "tries \<le> 5" and "send_status (socket c) (length (sent (socket c))) = Partial"
  shows "sendPacketRecursive tries p c =
           sendPacketRecursive (tries + 1) p
             (c\<lparr>socket := (socket c)\<lparr>sent := sent (socket c) @ [p]\<rparr>\<rparr>)"
  using assms
  by (subst sendPacketRecursive.simps) (simp add: socket_send_def)

lemma recvPacketRecursive_Partial:
  assumes "tries \<le> 5" and "fst (receive_result (socket c) (receive_calls (socket c))) = Partial"
  shows "recvPacketRecursive E tries c =
           recvPacketRecursive E (tries + 1)
             (c\<lparr>socket := (socket c)\<lparr>receive_calls := Suc (receive_calls (socket c))\<rparr>,
                packetBuffer := snd (receive_result (socket c) (receive_calls (socket c)))\<rparr>)"
  using assms
  by (subst recvPacketRecursive.simps) (simp add: socket_receive_def split_beta)

lemma recvPacketRecursive_fatal:
  assumes "tries \<le> 5"
    and "fst (receive_result (socket c) (receive_calls (socket c))) \<in> {Error, SocketDisconnected}"
  shows "recvPacketRecursive E tries c =
           (False, disconnect E
             (c\<lparr>socket := (socket c)\<lparr>receive_calls := Suc (receive_calls (socket c))\<rparr>,
                packetBuffer := snd (receive_result (socket c) (receive_calls (socket c)))\<rparr>))"
  using assms
  by (subst recvPacketRecursive.simps) (auto simp add: socket_receive_def split_beta)

lemma recvPacketRecursive_Done:
  assumes "tries \<le> 5"
    and "fst (receive_result (socket c) (receive_calls (socket c))) = Done"
  shows "recvPacketRecursive E tries c =
           (True, c\<lparr>socket := (socket c)\<lparr>receive_calls := Suc (receive_calls (socket c))\<rparr>,
                packetBuffer := snd (receive_result (socket c) (receive_calls (socket c)))\<rparr>)"
  using assms
  by (subst recvPacketRecursive.simps) (auto simp add: socket_receive_def split_beta)

subsection \<open>A fatal status after any number of partial transfers\<close>

lemma recv_fatal_disconnects:
  assumes "tries + int k \<le> 5"
    and "\<forall>j<k. fst (receive_result (socket c) (receive_calls (socket c) + j)) = Partial"
    and "fst (receive_result (socket c) (receive_calls (socket c) + k)) \<in> {Error, SocketDisconnected}"
  shows "\<not> fst (recvPacketRecursive E tries c)
       \<and> state (snd (recvPacketRecursive E tries c)) = Disconnected
       \<and> \<not> socketConnected (snd (recvPacketRecursive E tries c))"
  using assms
proof (induction k arbitrary: tries c)
  case 0
  then show ?case by (simp add: recvPacketRecursive_fatal)
next
  case (Suc k)
  let ?c' = "c\<lparr>socket := (socket c)\<lparr>receive_calls := Suc (receive_calls (socket c))\<rparr>,
                packetBuffer := snd (receive_result (socket c) (receive_calls (socket c)))\<rparr>"
  from Suc.prems have t: "tries \<le> 5" and p0: "fst (receive_result (socket c) (receive_calls (socket c))) = Partial"
    by auto
  have step: "recvPacketRecursive E tries c = recvPacketRecursive E (tries + 1) ?c'"
    using recvPacketRecursive_Partial[OF t p0] .
  have "\<not> fst (recvPacketRecursive E (tries + 1) ?c')
       \<and> state (snd (recvPacketRecursive E (tries + 1) ?c')) = Disconnected
       \<and> \<not> socketConnected (snd (recvPacketRecursive E (tries + 1) ?c'))"
  proof (rule Suc.IH)
    show "tries + 1 + int k \<le> 5" using Suc.prems(1) by simp
    show "\<forall>j<k. fst (receive_result (socket ?c') (receive_calls (socket ?c') + j)) = Partial"
      using Suc.prems(2) by auto
    show "fst (receive_result (socket ?c') (receive_calls (socket ?c') + k)) \<in> {Error, SocketDisconnected}"
      using Suc.prems(3) by simp
  qed
  with step show ?case by simp
qed

lemma send_fatal_reports:
  assumes "tries + int k \<le> 5"
    and "\<forall>j<k. send_status (socket c) (length (sent (socket c)) + j) = Partial"
    and "send_status (socket c) (length (sent (socket c)) + k) \<in> {Error, SocketDisconnected}"
  shows "\<not> fst (sendPacketRecursive tries p c)
       \<and> state (snd (sendPacketRecursive tries p c)) = state c
       \<and> socketConnected (snd (sendPacketRecursive tries p c)) = socketConnected c"
  using assms
proof (induction k arbitrary: tries c)
  case 0
  then have "tries \<le> 5" "send_status (socket c) (length (sent (socket c))) \<noteq> Partial"
    "send_status (socket c) (length (sent (socket c))) \<noteq> Done"
    by auto
  then show ?case by (simp add: sendPacketRecursive_answer)
next
  case (Suc k)
  let ?c' = "c\<lparr>socket := (socket c)\<lparr>sent := sent (socket c) @ [p]\<rparr>\<rparr>"
  from Suc.prems have t: "tries \<le> 5" and p0: "send_status (socket c) (length (sent (socket c))) = Partial"
    by auto
  have step: "sendPacketRecursive tries p c = sendPacketRecursive (tries + 1) p ?c'"
    using sendPacketRecursive_Partial[OF t p0] .
  have "\<not> fst (sendPacketRecursive (tries + 1) p ?c')
       \<and> state (snd (sendPacketRecursive (tries + 1) p ?c')) = state ?c'
       \<and> socketConnected (snd (sendPacketRecursive (tries + 1) p ?c')) = socketConnected ?c'"
  proof (rule Suc.IH)
    show "tries + 1 + int k \<le> 5" using Suc.prems(1) by simp
    show "\<forall>j<k. send_status (socket ?c') (length (sent (socket ?c')) + j) = Partial"
      using Suc.prems(2) by auto
    show "send_status (socket ?c') (length (sent (socket ?c')) + k) \<in> {Error, SocketDisconnected}"
      using Suc.prems(3) by simp
  qed
  with step show ?case by simp
qed

subsection \<open>Connecting\<close>

lemma sendHeartbeat_keeps [simp]:
  "state (snd (sendHeartbeat E c)) = state c"
  "events (snd (sendHeartbeat E c)) = events c"
  "socketConnected (snd (sendHeartbeat E c)) = socketConnected c"
  by (simp_all add: sendHeartbeat_def split_beta Let_def Clock_now_def)

lemma sendPublicKey_keeps [simp]:
  "state (snd (sendPublicKey E c)) = state c"
  "events (snd (sendPublicKey E c)) = events c"
  "socketConnected (snd (sendPublicKey E c)) = socketConnected c"
  by (simp_all add: sendPublicKey_def)

lemma initializeTcpSocket_keeps [simp]:
  "state (snd (initializeTcpSocket c)) = state c"
  "events (snd (initializeTcpSocket c)) = events c"
  by (simp_all add: initializeTcpSocket_def split_beta Let_def)



lemma connect_success:
  assumes "\<not> socketConnected c" and "fst (connect E c)"
  shows "state (snd (connect E c)) = Connected"
    and "events (snd (connect E c)) = events c @ [EConnectionSuccess]"
  using assms
  by (simp_all add: connect_def Let_def split_beta failEvent_def addEvent_def split: if_splits)


lemma connect_state:
  "state (snd (connect E c)) = Connecting \<or> state (snd (connect E c)) = ConnectionError
     \<or> state (snd (connect E c)) = Connected"
  by (simp add: connect_def Let_def split_beta failEvent_def addEvent_def)

lemma connect_evaluated:
  assumes "\<not> socketConnected c"
  shows "connect_status (socket c) (connect_calls (socket c)) \<noteq> Done \<Longrightarrow> \<not> fst (connect E c)"
    and "connect_status (socket c) (connect_calls (socket c)) = Done \<Longrightarrow>
         send_status (socket c) (length (sent (socket c))) = Done \<Longrightarrow>
         send_status (socket c) (Suc (length (sent (socket c)))) = Done \<Longrightarrow> fst (connect E c)"
  using assms
  by (simp_all add: connect_def Let_def split_beta failEvent_def initializeTcpSocket_def
      socket_connect_def setBlocking_def sendHeartbeat_def sendPublicKey_def sendUnencrypted_def
      sendPacket_def sendPacketRecursive_answer Clock_now_def)

subsection \<open>Construction\<close>

lemma waitForTicketResponse_never:
  "\<forall>k. \<not> got_encrypted_app_ticket_response sm k \<Longrightarrow> \<not> waitForTicketResponse sm tries"
proof (induction sm tries rule: waitForTicketResponse.induct)
  case (1 sm tries)
  then show ?case
    by (subst waitForTicketResponse.simps) (simp add: Let_def)
qed

lemma waitForTicketResponse_at_once:
  "got_encrypted_app_ticket_response sm (nat tries) \<Longrightarrow> waitForTicketResponse sm tries"
  by (subst waitForTicketResponse.simps) simp

lemma initializeTicketSteamID_failed:
  "\<not> fst (initializeTicketSteamID sm c) \<Longrightarrow> snd (initializeTicketSteamID sm c) = c"
  by (simp add: initializeTicketSteamID_def split: if_splits option.splits)

lemma initial_members_fields [simp]:
  "serverIp (initial_members ip port keys sock clk) = ip"
  "socket (initial_members ip port keys sock clk) = sock"
  "socketConnected (initial_members ip port keys sock clk) = False"
  "state (initial_members ip port keys sock clk) = Disconnected"
  "events (initial_members ip port keys sock clk) = []"
  by (simp_all add: initial_members_def)

lemma HexagonClient_InitError:
  assumes "state (HexagonClient E sm ip port keys sock clk) = InitError"
  shows "HexagonClient E sm ip port keys sock clk =
           (initial_members ip port keys sock clk)\<lparr>state := InitError\<rparr>"
proof (cases ip)
  case None
  then show ?thesis by (simp add: HexagonClient_def)
next
  case (Some a)
  let ?c = "initial_members (Some a) port keys sock clk :: 'a client"
  show ?thesis
  proof (cases "fst (initializeTicketSteamID sm ?c)")
    case ok: True
    with Some have "HexagonClient E sm ip port keys sock clk =
        snd (connect E (snd (initializeTicketSteamID sm ?c)))"
      by (simp add: HexagonClient_def Let_def split_beta)
    with assms connect_state [of E "snd (initializeTicketSteamID sm ?c)"] show ?thesis
      by simp
  next
    case bad: False
    with Some initializeTicketSteamID_failed [OF bad] show ?thesis
      by (simp add: HexagonClient_def Let_def split_beta)
  qed
qed

lemma HexagonClient_no_response:
  "\<forall>k. \<not> got_encrypted_app_ticket_response sm k \<Longrightarrow>
   HexagonClient E sm ip port keys sock clk =
     (initial_members ip port keys sock clk)\<lparr>state := InitError\<rparr>"
  by (cases ip)
     (simp_all add: HexagonClient_def Let_def initializeTicketSteamID_def
        waitForTicketResponse_never)

lemma connect_not_InitError: "state (snd (connect E c)) \<noteq> InitError"
  using connect_state [of E c] by auto

text \<open>
  The constructor ends in \<open>InitError\<close> exactly when the address is
  \<^verbatim>\<open>sf::IpAddress::None\<close> or the ticket Steam ID cannot be initialised.
\<close>

lemma HexagonClient_InitError_iff:
  "state (HexagonClient E sm ip port keys sock clk) = InitError \<longleftrightarrow>
     ip = None \<or> \<not> waitForTicketResponse sm 0 \<or> \<not> got_encrypted_app_ticket sm
       \<or> get_ticket_steam_id sm = None"
  by (cases ip; cases "get_ticket_steam_id sm")
     (simp_all add: HexagonClient_def initializeTicketSteamID_def Let_def connect_not_InitError)

subsection \<open>Calls on a client that never had a connection\<close>

lemma never_connected_after_call:
  assumes "never_connected sock c" and "x \<noteq> Call_connect"
  shows "never_connected sock (after_call E x c)"
proof (cases x)
  case Call_connect
  with assms show ?thesis by simp
next
  case Call_disconnect
  with assms show ?thesis
    by (auto simp add: never_connected_def disconnect_def Let_def socket_disconnect_def setBlocking_def)
qed (use assms in \<open>auto simp add: never_connected_def update_def tryRegister_def tryLogin_def
      tryLogoutFromServer_def tryDeleteAccount_def tryRequestTopScores_def trySendReplay_def
      tryRequestOwnScore_def tryRequestTopScoresAndOwnScore_def trySendStartedGame_def
      connectedAndInState_def pollEvent_def\<close>)

lemma never_connected_after_calls:
  assumes "never_connected sock c" and "Call_connect \<notin> set xs"
  shows "never_connected sock (after_calls E xs c)"
  using assms
proof (induction xs arbitrary: c)
  case Nil
  then show ?case by simp
next
  case (Cons x xs)
  then have "never_connected sock (after_call E x c)"
    by (auto intro: never_connected_after_call)
  with Cons show ?case by simp
qed

subsection \<open>Requests on a client without a Steam ID\<close>

text \<open>
  \<^verbatim>\<open>connect()\<close> never assigns \<^verbatim>\<open>_ticketSteamID\<close>, and a successful call leaves the socket
  connected. A connected client in the state \<open>Connected\<close> that has no Steam ID fails the
  assertion \<^verbatim>\<open>SSVOH_ASSERT(_ticketSteamID.has_value())\<close> of every request that passes its
  guard and its validation.
\<close>

lemma connect_keeps_ticketSteamID: "ticketSteamID (snd (connect E c)) = ticketSteamID c"
  by (simp add: connect_def Let_def split_beta failEvent_def addEvent_def
      initializeTcpSocket_def sendHeartbeat_def sendPublicKey_def Clock_now_def)

lemma connect_success_connected:
  assumes "\<not> socketConnected c" and "fst (connect E c)"
  shows "socketConnected (snd (connect E c))"
  using assms
  by (simp add: connect_def Let_def split_beta failEvent_def addEvent_def
      initializeTcpSocket_def split: if_splits)

lemma requests_without_ticketSteamID:
  assumes "socketConnected c" and "state c = Connected" and "ticketSteamID c = None"
    and "name \<noteq> []" and "length name \<le> 32" and "password \<noteq> []"
  shows "tryRegister E name password c = (Inl BadOptionalAccess, c)"
    and "tryLogin E name password c = (Inl BadOptionalAccess, c)"
    and "tryDeleteAccount E password c = (Inl BadOptionalAccess, c)"
  using assms
  by (simp_all add: tryRegister_def tryLogin_def tryDeleteAccount_def connectedAndInState_def)

section \<open>The claims\<close>

subsection \<open>Requests out of their state\<close>

text \<open>
  Claim C2: each request that needs the state \<open>LoggedIn\<close> (logout, top scores, replay, own
  score, top scores and own score, started game), called in any other state, returns
  false and leaves the client exactly as it was: nothing is handed to the socket, no
  event is queued, the state is unchanged.
\<close>

theorem requests_need_LoggedIn:
  assumes "state c \<noteq> LoggedIn"
  shows "tryLogoutFromServer E c = (Inr False, c)
       \<and> tryRequestTopScores E lv c = (Inr False, c)
       \<and> trySendReplay E rf c = (Inr False, c)
       \<and> tryRequestOwnScore E lv c = (Inr False, c)
       \<and> tryRequestTopScoresAndOwnScore E lv c = (Inr False, c)
       \<and> trySendStartedGame E lv c = (Inr False, c)"
  using assms
  by (simp add: tryLogoutFromServer_def tryRequestTopScores_def trySendReplay_def
      tryRequestOwnScore_def tryRequestTopScoresAndOwnScore_def trySendStartedGame_def
      connectedAndInState_def)

text \<open>The scenario of the specification: \<^verbatim>\<open>trySendReplay\<close> and its siblings while \<open>Connected\<close>.\<close>

theorem requests_need_LoggedIn_witness:
  "state (sample_client Connected (sample_socket 0 Done)) \<noteq> LoggedIn
   \<and> tryLogoutFromServer sample_env (sample_client Connected (sample_socket 0 Done))
       = (Inr False, sample_client Connected (sample_socket 0 Done))
   \<and> tryRequestTopScores sample_env ''level'' (sample_client Connected (sample_socket 0 Done))
       = (Inr False, sample_client Connected (sample_socket 0 Done))
   \<and> trySendReplay sample_env () (sample_client Connected (sample_socket 0 Done))
       = (Inr False, sample_client Connected (sample_socket 0 Done))
   \<and> tryRequestOwnScore sample_env ''level'' (sample_client Connected (sample_socket 0 Done))
       = (Inr False, sample_client Connected (sample_socket 0 Done))
   \<and> tryRequestTopScoresAndOwnScore sample_env ''level''
         (sample_client Connected (sample_socket 0 Done))
       = (Inr False, sample_client Connected (sample_socket 0 Done))
   \<and> trySendStartedGame sample_env ''level'' (sample_client Connected (sample_socket 0 Done))
       = (Inr False, sample_client Connected (sample_socket 0 Done))"
proof -
  have h: "state (sample_client Connected (sample_socket 0 Done)) \<noteq> LoggedIn"
    by (simp add: sample_client_def)
  show ?thesis
    using h requests_need_LoggedIn [OF h, of sample_env "''level''" "()"] by simp
qed

text \<open>
  Claim C8: \<^verbatim>\<open>tryRegister\<close> on a connected client in the state \<open>Connected\<close>, with an empty
  name, a name of more than 32 characters or an empty password, returns false and only
  appends one \<open>ERegistrationFailure\<close> whose reason names the too long or empty fields; the
  socket, and with it the log of what was sent, is untouched.
\<close>

theorem tryRegister_rejects_bad_fields:
  assumes "socketConnected c" and "state c = Connected"
    and "name = [] \<or> length name > 32 \<or> password = []"
  shows "tryRegister E name password c =
    (Inr False,
     c\<lparr>events := events c @
          [ERegistrationFailure ''Name or password fields too long or empty'']\<rparr>)"
  using assms by (auto simp add: tryRegister_def connectedAndInState_def addEvent_def)

text \<open>The scenario of the specification: the empty name with the password \<open>abc\<close>.\<close>

theorem tryRegister_rejects_bad_fields_witness:
  "socketConnected (sample_client Connected (sample_socket 0 Done))
   \<and> state (sample_client Connected (sample_socket 0 Done)) = Connected
   \<and> tryRegister sample_env '''' ''abc'' (sample_client Connected (sample_socket 0 Done)) =
       (Inr False,
        (sample_client Connected (sample_socket 0 Done))
          \<lparr>events := [ERegistrationFailure ''Name or password fields too long or empty'']\<rparr>)
   \<and> sent (socket (snd (tryRegister sample_env '''' ''abc''
         (sample_client Connected (sample_socket 0 Done))))) = []"
proof -
  have h1: "socketConnected (sample_client Connected (sample_socket 0 Done))"
    and h2: "state (sample_client Connected (sample_socket 0 Done)) = Connected"
    and h3: "events (sample_client Connected (sample_socket 0 Done)) = []"
    and h4: "sent (socket (sample_client Connected (sample_socket 0 Done))) = []"
    by (simp_all add: sample_client_def sample_socket_def)
  have h5: "'''' = [] \<or> length '''' > 32 \<or> ''abc'' = []" by simp
  show ?thesis
    using h1 h2 h3 h4 tryRegister_rejects_bad_fields [OF h1 h2 h5, of sample_env] by simp
qed

text \<open>
  Claim C9: \<^verbatim>\<open>tryLogoutFromServer\<close> on a connected client in the state \<open>LoggedIn\<close> leaves
  the state \<open>Connected\<close> and the login token and name empty whatever happens afterwards;
  what it returns is the outcome of sending the logout message from the client so
  changed (or the failed access to an absent Steam ID).
\<close>

theorem tryLogoutFromServer_logs_out_first:
  assumes "socketConnected c" and "state c = LoggedIn"
  shows "state (snd (tryLogoutFromServer E c)) = Connected
       \<and> loginToken (snd (tryLogoutFromServer E c)) = None
       \<and> loginName (snd (tryLogoutFromServer E c)) = None
       \<and> (case ticketSteamID c of
            None \<Rightarrow> fst (tryLogoutFromServer E c) = Inl BadOptionalAccess
          | Some steamId \<Rightarrow>
              fst (tryLogoutFromServer E c) =
                Inr (fst (sendLogout E steamId
                  (c\<lparr>state := Connected, loginToken := None, loginName := None\<rparr>))))"
  using assms
  by (simp add: tryLogoutFromServer_def connectedAndInState_def returning_def sendLogout_def
      Let_def split: option.splits)

text \<open>A logout whose send fails (the socket answers \<open>Error\<close>) still logs the client out.\<close>

theorem tryLogoutFromServer_logs_out_first_witness:
  "socketConnected (sample_client LoggedIn (sample_socket 0 Error))
   \<and> state (sample_client LoggedIn (sample_socket 0 Error)) = LoggedIn
   \<and> loginToken (sample_client LoggedIn (sample_socket 0 Error)) = Some 7
   \<and> state (snd (tryLogoutFromServer sample_env (sample_client LoggedIn (sample_socket 0 Error))))
       = Connected
   \<and> loginToken (snd (tryLogoutFromServer sample_env
         (sample_client LoggedIn (sample_socket 0 Error)))) = None
   \<and> loginName (snd (tryLogoutFromServer sample_env
         (sample_client LoggedIn (sample_socket 0 Error)))) = None
   \<and> fst (tryLogoutFromServer sample_env (sample_client LoggedIn (sample_socket 0 Error)))
       = Inr False"
proof -
  have h1: "socketConnected (sample_client LoggedIn (sample_socket 0 Error))"
    and h2: "state (sample_client LoggedIn (sample_socket 0 Error)) = LoggedIn"
    and h3: "loginToken (sample_client LoggedIn (sample_socket 0 Error)) = Some 7"
    and h4: "ticketSteamID (sample_client LoggedIn (sample_socket 0 Error)) = Some 42"
    by (simp_all add: sample_client_def)
  have h5: "fst (sendLogout sample_env 42
      ((sample_client LoggedIn (sample_socket 0 Error))
         \<lparr>state := Connected, loginToken := None, loginName := None\<rparr>)) = False"
    by (simp add: sendLogout_def sendEncrypted_def sendPacket_def sendPacketRecursive_answer
        sample_client_def sample_socket_def sample_env_def)
  show ?thesis
    using h1 h2 h3 h4 h5 tryLogoutFromServer_logs_out_first [OF h1 h2, of sample_env]
    by simp
qed

subsection \<open>Calls without a connection\<close>

text \<open>
  Claim C7: \<^verbatim>\<open>disconnect()\<close> on a client in the state \<open>Disconnected\<close> only closes the
  socket again: the state stays \<open>Disconnected\<close>, no logout or disconnect message is handed
  to the socket, no event is queued, and a further \<^verbatim>\<open>disconnect()\<close> changes nothing. The
  function is total, so there is no exception to model.
\<close>

theorem disconnect_when_Disconnected:
  assumes "state c = Disconnected"
  shows "disconnect E c =
           c\<lparr>socket := socket_disconnect (setBlocking (socket c) True),
             socketConnected := False, state := Disconnected\<rparr>
       \<and> state (disconnect E c) = Disconnected
       \<and> sent (socket (disconnect E c)) = sent (socket c)
       \<and> events (disconnect E c) = events c
       \<and> disconnect E (disconnect E c) = disconnect E c"
  using assms
  by (simp add: disconnect_def Let_def socket_disconnect_def setBlocking_def)

text \<open>A second \<^verbatim>\<open>disconnect()\<close> after the one that ended a logged-in session.\<close>

theorem disconnect_when_Disconnected_witness:
  "state (disconnect sample_env (sample_client LoggedIn (sample_socket 0 Done))) = Disconnected
   \<and> state (disconnect sample_env
         (disconnect sample_env (sample_client LoggedIn (sample_socket 0 Done)))) = Disconnected
   \<and> sent (socket (disconnect sample_env
         (disconnect sample_env (sample_client LoggedIn (sample_socket 0 Done)))))
       = sent (socket (disconnect sample_env (sample_client LoggedIn (sample_socket 0 Done))))
   \<and> events (disconnect sample_env
         (disconnect sample_env (sample_client LoggedIn (sample_socket 0 Done))))
       = events (disconnect sample_env (sample_client LoggedIn (sample_socket 0 Done)))"
proof -
  have h: "state (disconnect sample_env (sample_client LoggedIn (sample_socket 0 Done))) = Disconnected"
    by simp
  show ?thesis using h disconnect_when_Disconnected [OF h, of sample_env] by blast
qed

text \<open>
  Claim C10: \<^verbatim>\<open>update()\<close> on a client whose socket is not connected returns the client
  unchanged: no heartbeat, no receive, no event, the same state, keys and login session.
\<close>

theorem update_without_socket: "\<not> socketConnected c \<Longrightarrow> update E c = c"
  by (simp add: update_def)

text \<open>An update after a disconnect.\<close>

theorem update_without_socket_witness:
  "\<not> socketConnected (disconnect sample_env (sample_client LoggedIn (sample_socket 0 Done)))
   \<and> update sample_env (disconnect sample_env (sample_client LoggedIn (sample_socket 0 Done)))
       = disconnect sample_env (sample_client LoggedIn (sample_socket 0 Done))"
proof -
  have h: "\<not> socketConnected (disconnect sample_env (sample_client LoggedIn (sample_socket 0 Done)))"
    by simp
  show ?thesis using h update_without_socket [OF h, of sample_env] by simp
qed

subsection \<open>The connection sequence\<close>




subsection \<open>The login session\<close>

text \<open>
  Claim C3 says that \<^verbatim>\<open>disconnect()\<close> clears the login token and the login name.
  \<^verbatim>\<open>disconnect()\<close> assigns neither (see \<open>disconnect_keeps\<close>). Here a connected client
  receives a login success in \<^verbatim>\<open>update()\<close>, which creates the session as the claim says,
  and then disconnects: it is \<open>Disconnected\<close> and still holds the token and the name.
\<close>

theorem disconnect_leaves_login_session:
  "state (update sample_env
      (sample_client Connected ((sample_socket 0 Done)\<lparr>receive_result := (\<lambda>k. (Done, [5]))\<rparr>)))
     = LoggedIn
   \<and> loginToken (update sample_env
      (sample_client Connected ((sample_socket 0 Done)\<lparr>receive_result := (\<lambda>k. (Done, [5]))\<rparr>)))
     = Some 7
   \<and> state (disconnect sample_env (update sample_env
      (sample_client Connected ((sample_socket 0 Done)\<lparr>receive_result := (\<lambda>k. (Done, [5]))\<rparr>))))
     = Disconnected
   \<and> loginToken (disconnect sample_env (update sample_env
      (sample_client Connected ((sample_socket 0 Done)\<lparr>receive_result := (\<lambda>k. (Done, [5]))\<rparr>))))
     = Some 7
   \<and> loginName (disconnect sample_env (update sample_env
      (sample_client Connected ((sample_socket 0 Done)\<lparr>receive_result := (\<lambda>k. (Done, [5]))\<rparr>))))
     = Some ''player''"
proof -
  let ?c = "sample_client Connected ((sample_socket 0 Done)\<lparr>receive_result := (\<lambda>k. (Done, [5]))\<rparr>)"
  have u: "update sample_env ?c =
      addEvent ELoginSuccess
        (?c\<lparr>socket := (socket ?c)\<lparr>receive_calls := 1\<rparr>, packetBuffer := [5], clock_reads := 1,
            loginToken := Some 7, loginName := Some ''player'', state := LoggedIn\<rparr>)"
    by (simp add: update_def sendHeartbeatIfNecessary_def Clock_now_def heatbeatInterval_def
        receiveDataFromServer_def recvPacket_def recvPacketRecursive_Done
        decodeServerToClientPacket_def sample_client_def sample_socket_def sample_env_def
        addEvent_def)
  show ?thesis
    unfolding u by (simp add: addEvent_def)
qed

subsection \<open>Encrypted traffic without session keys\<close>

text \<open>
  Claim C4: without session keys, \<^verbatim>\<open>sendEncrypted\<close> returns false and leaves the client
  as it was (nothing is handed to the socket); an encrypted envelope decodes to the
  invalid variant, and \<^verbatim>\<open>receiveDataFromServer\<close> on such a packet returns false with no
  event queued and no change of state, keys or login session: only the socket's count
  of receives and the packet buffer record that a packet arrived.
\<close>

theorem encrypted_traffic_needs_session_keys:
  assumes "clientRTKeys c = None"
  shows "sendEncrypted E data c = (False, c)
       \<and> (decodeOuter E p = PEncryptedMsg \<longrightarrow>
            decodeServerToClientPacket E (map_option keyReceive (clientRTKeys c)) p =
              PInvalid ''encrypted message without receive key'')
       \<and> (socketConnected c
            \<and> receive_result (socket c) (receive_calls (socket c)) = (Done, p)
            \<and> decodeOuter E p = PEncryptedMsg \<longrightarrow>
            receiveDataFromServer E c =
              (False,
               c\<lparr>socket := (socket c)\<lparr>receive_calls := Suc (receive_calls (socket c))\<rparr>,
                 packetBuffer := p\<rparr>))"
proof (intro conjI impI)
  show "sendEncrypted E data c = (False, c)"
    using assms by (simp add: sendEncrypted_def)
next
  assume "decodeOuter E p = PEncryptedMsg"
  with assms show "decodeServerToClientPacket E (map_option keyReceive (clientRTKeys c)) p =
      PInvalid ''encrypted message without receive key''"
    by (simp add: decodeServerToClientPacket_def)
next
  assume a: "socketConnected c
            \<and> receive_result (socket c) (receive_calls (socket c)) = (Done, p)
            \<and> decodeOuter E p = PEncryptedMsg"
  then have r: "recvPacketRecursive E 0 c =
      (True, c\<lparr>socket := (socket c)\<lparr>receive_calls := Suc (receive_calls (socket c))\<rparr>,
                packetBuffer := p\<rparr>)"
    by (simp add: recvPacketRecursive_Done)
  from a assms show "receiveDataFromServer E c =
              (False,
               c\<lparr>socket := (socket c)\<lparr>receive_calls := Suc (receive_calls (socket c))\<rparr>,
                 packetBuffer := p\<rparr>)"
    by (simp add: receiveDataFromServer_def recvPacket_def r decodeServerToClientPacket_def)
qed

text \<open>A client without keys that sends a logout and receives an envelope.\<close>

theorem encrypted_traffic_needs_session_keys_witness:
  "clientRTKeys (sample_client Connected (sample_socket 0 Done)) = None
   \<and> sendEncrypted sample_env (CTSPLogout 42) (sample_client Connected (sample_socket 0 Done))
       = (False, sample_client Connected (sample_socket 0 Done))
   \<and> decodeOuter sample_env [2] = PEncryptedMsg
   \<and> decodeServerToClientPacket sample_env None [2] =
       PInvalid ''encrypted message without receive key''
   \<and> fst (receiveDataFromServer sample_env (sample_client Connected (sample_socket 0 Done)))
       = False
   \<and> events (snd (receiveDataFromServer sample_env
         (sample_client Connected (sample_socket 0 Done)))) = []"
proof -
  have h: "clientRTKeys (sample_client Connected (sample_socket 0 Done)) = None"
    and h1: "socketConnected (sample_client Connected (sample_socket 0 Done))"
    and h2: "receive_result (socket (sample_client Connected (sample_socket 0 Done)))
        (receive_calls (socket (sample_client Connected (sample_socket 0 Done)))) = (Done, [2])"
    and h3: "events (sample_client Connected (sample_socket 0 Done)) = []"
    by (simp_all add: sample_client_def sample_socket_def)
  have h4: "decodeOuter sample_env [2] = PEncryptedMsg"
    by (simp add: sample_env_def)
  show ?thesis
    using h h1 h2 h3 h4
      encrypted_traffic_needs_session_keys [OF h, of sample_env "CTSPLogout 42" "[2]"]
    by simp
qed

subsection \<open>Fatal failures of the socket\<close>

text \<open>
  Claim C5, as the specification states it, fails for the send primitive: when the socket
  answers \<^verbatim>\<open>Status::Disconnected\<close> to a send, \<^verbatim>\<open>sendPacketRecursive\<close> returns false
  and the client is still connected and in the state it had.
\<close>

theorem send_fatal_failure_counterexample:
  "send_status (socket (sample_client Connected (sample_socket 0 SocketDisconnected))) 0
      = SocketDisconnected
   \<and> \<not> fst (sendPacketRecursive 0 [1] (sample_client Connected (sample_socket 0 SocketDisconnected)))
   \<and> socketConnected
        (snd (sendPacketRecursive 0 [1] (sample_client Connected (sample_socket 0 SocketDisconnected))))
   \<and> state
        (snd (sendPacketRecursive 0 [1] (sample_client Connected (sample_socket 0 SocketDisconnected))))
      = Connected"
  by (simp add: sendPacketRecursive_answer sample_client_def sample_socket_def)

text \<open>
  Claim C5, amended: when the socket answers \<open>Error\<close> or \<open>SocketDisconnected\<close>, at once
  or after partial transfers within the bound of tries, the receive primitive disconnects
  the client (state \<open>Disconnected\<close>, socket not connected) and returns false; the send
  primitive returns false and leaves state and connection flag as they were, so that
  disconnecting is up to its caller.
\<close>

theorem fatal_failure_receive_disconnects_send_reports:
  assumes "tries + int k \<le> 5"
  shows "((\<forall>j<k. fst (receive_result (socket c) (receive_calls (socket c) + j)) = Partial)
          \<and> fst (receive_result (socket c) (receive_calls (socket c) + k))
               \<in> {Error, SocketDisconnected} \<longrightarrow>
          \<not> fst (recvPacketRecursive E tries c)
          \<and> state (snd (recvPacketRecursive E tries c)) = Disconnected
          \<and> \<not> socketConnected (snd (recvPacketRecursive E tries c)))
       \<and> ((\<forall>j<k. send_status (socket c) (length (sent (socket c)) + j) = Partial)
          \<and> send_status (socket c) (length (sent (socket c)) + k)
               \<in> {Error, SocketDisconnected} \<longrightarrow>
          \<not> fst (sendPacketRecursive tries p c)
          \<and> state (snd (sendPacketRecursive tries p c)) = state c
          \<and> socketConnected (snd (sendPacketRecursive tries p c)) = socketConnected c)"
  using recv_fatal_disconnects [OF assms, of c E] send_fatal_reports [OF assms, of c p]
  by blast

text \<open>A logged-in client whose socket answers \<open>Partial\<close> once and \<open>Error\<close> afterwards.\<close>

theorem fatal_failure_receive_disconnects_send_reports_witness:
  "\<not> fst (recvPacketRecursive sample_env 0 (sample_client LoggedIn (sample_socket (Suc 0) Error)))
   \<and> state (snd (recvPacketRecursive sample_env 0 (sample_client LoggedIn (sample_socket (Suc 0) Error))))
       = Disconnected
   \<and> \<not> socketConnected
        (snd (recvPacketRecursive sample_env 0 (sample_client LoggedIn (sample_socket (Suc 0) Error))))
   \<and> \<not> fst (sendPacketRecursive 0 [1] (sample_client LoggedIn (sample_socket (Suc 0) Error)))
   \<and> state (snd (sendPacketRecursive 0 [1] (sample_client LoggedIn (sample_socket (Suc 0) Error))))
       = LoggedIn
   \<and> socketConnected
        (snd (sendPacketRecursive 0 [1] (sample_client LoggedIn (sample_socket (Suc 0) Error))))"
proof -
  have h: "0 + int (Suc 0) \<le> 5" by simp
  have s: "state (sample_client LoggedIn (sample_socket (Suc 0) Error)) = LoggedIn"
    "socketConnected (sample_client LoggedIn (sample_socket (Suc 0) Error))"
    "receive_result (socket (sample_client LoggedIn (sample_socket (Suc 0) Error))) =
       (\<lambda>k. (if k < Suc 0 then Partial else Error, [2]))"
    "send_status (socket (sample_client LoggedIn (sample_socket (Suc 0) Error))) =
       (\<lambda>k. if k < Suc 0 then Partial else Error)"
    "receive_calls (socket (sample_client LoggedIn (sample_socket (Suc 0) Error))) = 0"
    "sent (socket (sample_client LoggedIn (sample_socket (Suc 0) Error))) = []"
    by (simp_all add: sample_client_def sample_socket_def)
  show ?thesis
    using fatal_failure_receive_disconnects_send_reports
      [OF h, of "sample_client LoggedIn (sample_socket (Suc 0) Error)" sample_env "[1]"]
    by (simp add: s)
qed

subsection \<open>The state after a failed initialisation\<close>

text \<open>
  Claim C6 says that \<open>InitError\<close> is terminal: no sequence of public calls leads from it
  to \<open>Connecting\<close>, \<open>Connected\<close> or \<open>LoggedIn\<close>. The constructor itself returns before
  \<^verbatim>\<open>connect()\<close> when the initialisation fails, and the requests assert that a connected
  client has its Steam ID; but \<^verbatim>\<open>connect()\<close> is public and never reads the state. Here
  the Steam manager never answers, so the constructor ends in \<open>InitError\<close> without a
  Steam ID; one call of \<^verbatim>\<open>connect()\<close> on a socket that accepts succeeds and leaves the
  client \<open>Connected\<close>, and the next \<^verbatim>\<open>tryLogin\<close> reads the empty Steam ID.
\<close>

theorem InitError_not_terminal:
  "state (HexagonClient sample_env (sample_steam False) (Some 1) 50505
            \<lparr>keyPublic = [3], keySecret = [4]\<rparr> (sample_socket 0 Done) (\<lambda>k. 0) :: unit client)
     = InitError
   \<and> ticketSteamID (HexagonClient sample_env (sample_steam False) (Some 1) 50505
            \<lparr>keyPublic = [3], keySecret = [4]\<rparr> (sample_socket 0 Done) (\<lambda>k. 0) :: unit client)
     = None
   \<and> fst (connect sample_env
        (HexagonClient sample_env (sample_steam False) (Some 1) 50505
            \<lparr>keyPublic = [3], keySecret = [4]\<rparr> (sample_socket 0 Done) (\<lambda>k. 0)))
   \<and> state (after_calls sample_env [Call_connect]
        (HexagonClient sample_env (sample_steam False) (Some 1) 50505
            \<lparr>keyPublic = [3], keySecret = [4]\<rparr> (sample_socket 0 Done) (\<lambda>k. 0)))
     = Connected
   \<and> fst (tryLogin sample_env ''name'' ''secret''
        (after_calls sample_env [Call_connect]
          (HexagonClient sample_env (sample_steam False) (Some 1) 50505
            \<lparr>keyPublic = [3], keySecret = [4]\<rparr> (sample_socket 0 Done) (\<lambda>k. 0))))
     = Inl BadOptionalAccess"
proof -
  let ?c = "HexagonClient sample_env (sample_steam False) (Some 1) 50505
            \<lparr>keyPublic = [3], keySecret = [4]\<rparr> (sample_socket 0 Done) (\<lambda>k. 0) :: unit client"
  have c: "?c = (initial_members (Some 1) 50505 \<lparr>keyPublic = [3], keySecret = [4]\<rparr>
                  (sample_socket 0 Done) (\<lambda>k. 0))\<lparr>state := InitError\<rparr>"
    by (rule HexagonClient_no_response) (simp add: sample_steam_def)
  have i: "state ?c = InitError" unfolding c by simp
  have t: "ticketSteamID ?c = None" unfolding c by (simp add: initial_members_def)
  have n: "\<not> socketConnected ?c" unfolding c by simp
  have f: "fst (connect sample_env ?c)"
    unfolding c
    by (rule connect_evaluated(2)) (simp_all add: initial_members_def sample_socket_def)
  have s: "state (snd (connect sample_env ?c)) = Connected"
    using n f by (rule connect_success(1))
  have k: "socketConnected (snd (connect sample_env ?c))"
    using n f by (rule connect_success_connected)
  have t': "ticketSteamID (snd (connect sample_env ?c)) = None"
    using t by (simp only: connect_keeps_ticketSteamID)
  have l: "tryLogin sample_env ''name'' ''secret'' (snd (connect sample_env ?c)) =
      (Inl BadOptionalAccess, snd (connect sample_env ?c))"
    by (rule requests_without_ticketSteamID(2) [OF k s t']) simp_all
  from i t f s l show ?thesis by simp
qed

end
